theory Spec2Isabelle
  imports Main
begin

section \<open>Pagination cursors (package data)\<close>

text \<open>
  Modelled from the spec: the declarations of \<open>data.Cursor\<close> and \<open>data.Pagination\<close> are not
  among the sources. The storage package reads \<open>page.Next.ID\<close> and \<open>page.Previous.ID\<close> as Go
  strings (they are concatenated with string constants) and hands the \<open>Timestamp\<close> fields
  to the driver untouched, so the timestamp type is a parameter. A nil \<open>*Cursor\<close> is
  \<open>None\<close>.
\<close>

record 't Cursor =
  ID :: string
  Timestamp :: 't

record 't Pagination =
  Previous :: "'t Cursor option"
  Next :: "'t Cursor option"

section \<open>Ordering clauses and page sizes (storage/rdbms.go, lines 33-57)\<close>

type_synonym orderByClause = string

text \<open>\<open>PageSizeEnum\<close> is a Go \<open>int\<close>; only equality tests are made on it.\<close>

type_synonym PageSizeEnum = int

definition baseOrderByClause :: orderByClause where
  "baseOrderByClause = ''ORDER BY createdAt desc, id desc''"

definition pageSizeWithOrder :: orderByClause where
  "pageSizeWithOrder = baseOrderByClause @ '' LIMIT 25''"

definition mediumPageSizeWithOrder :: orderByClause where
  "mediumPageSizeWithOrder = baseOrderByClause @ '' LIMIT 50''"

definition largePageSizeWithOrder :: orderByClause where
  "largePageSizeWithOrder = baseOrderByClause @ '' LIMIT 100''"

definition extraLargePageSizeWithOrder :: orderByClause where
  "extraLargePageSizeWithOrder = baseOrderByClause @ '' LIMIT 500''"

definition baseOrderByClauseOpposite :: orderByClause where
  "baseOrderByClauseOpposite = ''ORDER BY createdAt asc, id asc''"

definition pageSizeWithOrderOpposite :: orderByClause where
  "pageSizeWithOrderOpposite = baseOrderByClauseOpposite @ '' LIMIT 25''"

definition mediumPageSizeWithOrderOpposite :: orderByClause where
  "mediumPageSizeWithOrderOpposite = baseOrderByClauseOpposite @ '' LIMIT 50''"

definition largePageSizeWithOrderOpposite :: orderByClause where
  "largePageSizeWithOrderOpposite = baseOrderByClauseOpposite @ '' LIMIT 100''"

definition extraLargePageSizeWithOrderOpposite :: orderByClause where
  "extraLargePageSizeWithOrderOpposite = baseOrderByClauseOpposite @ '' LIMIT 500''"

text \<open>
  The four tiers are declared with \<open>iota\<close> in the same \<open>const\<close> block, after the ten
  clause constants, so \<open>iota\<close> is 10 at \<open>RegularPageSize\<close>.
\<close>

definition RegularPageSize :: PageSizeEnum where
  "RegularPageSize = 10"

definition MediumPageSize :: PageSizeEnum where
  "MediumPageSize = 11"

definition LargePageSize :: PageSizeEnum where
  "LargePageSize = 12"

definition ExtraLargePageSize :: PageSizeEnum where
  "ExtraLargePageSize = 13"

section \<open>The query fragment generator (storage/rdbms.go, lines 217-280)\<close>

text \<open>
  The two \<open>switch\<close> statements on the page size, in the order of their cases; \<open>default\<close>
  is the regular tier.
\<close>

definition orderByForward :: "PageSizeEnum \<Rightarrow> orderByClause" where
  "orderByForward pageSize =
     (if pageSize = ExtraLargePageSize then extraLargePageSizeWithOrder
      else if pageSize = LargePageSize then largePageSizeWithOrder
      else if pageSize = MediumPageSize then mediumPageSizeWithOrder
      else if pageSize = RegularPageSize then pageSizeWithOrder
      else pageSizeWithOrder)"

definition orderByOpposite :: "PageSizeEnum \<Rightarrow> orderByClause" where
  "orderByOpposite pageSize =
     (if pageSize = ExtraLargePageSize then extraLargePageSizeWithOrderOpposite
      else if pageSize = LargePageSize then largePageSizeWithOrderOpposite
      else if pageSize = MediumPageSize then mediumPageSizeWithOrderOpposite
      else if pageSize = RegularPageSize then pageSizeWithOrderOpposite
      else pageSizeWithOrderOpposite)"

text \<open>
  \<open>page\<close> is the struct behind the pointer the Go function receives. The identifier
  is spliced into the text between two apostrophes (\<open>CHR 0x27\<close>); the timestamp is
  left as the placeholder \<open>?\<close>. The Go parameter \<open>append\<close> is written \<open>append'\<close>.
\<close>

definition GetPaginationQueryFragmentWithConfigurablePageSize ::
    "'t Pagination \<Rightarrow> bool \<Rightarrow> PageSizeEnum \<Rightarrow> string" where
  "GetPaginationQueryFragmentWithConfigurablePageSize page append' pageSize =
     (let query = '' '';
          orderByQueryClause = orderByForward pageSize
      in case Next page of
           Some next \<Rightarrow>
             (let query = (if append' then query @ ''AND '' else query @ ''WHERE '');
                  query = query @ ''id < '' @ [CHR 0x27] @ ID next @ [CHR 0x27] @ '' '';
                  query = query @ ''AND createdAt <= ? ''
              in query @ orderByQueryClause)
         | None \<Rightarrow>
             (case Previous page of
                Some previous \<Rightarrow>
                  (let query = (if append' then query @ ''AND '' else query @ ''WHERE '');
                       query = query @ ''id > '' @ [CHR 0x27] @ ID previous @ [CHR 0x27] @ '' '';
                       query = query @ ''AND createdAt >= ? '';
                       orderByQueryClause = orderByOpposite pageSize
                   in query @ orderByQueryClause)
              | None \<Rightarrow> query @ orderByQueryClause))"

definition GetPaginationQueryFragment :: "'t Pagination \<Rightarrow> bool \<Rightarrow> string" where
  "GetPaginationQueryFragment page append' =
     GetPaginationQueryFragmentWithConfigurablePageSize page append' RegularPageSize"

text \<open>
  The bind values: two independent \<open>if\<close> statements, each appending to the slice.
\<close>

definition GetPaginationTimestampQueryArgs :: "'t Pagination \<Rightarrow> 't list" where
  "GetPaginationTimestampQueryArgs page =
     (let times = [];
          times = (case Next page of Some next \<Rightarrow> times @ [Timestamp next] | None \<Rightarrow> times);
          times = (case Previous page of Some previous \<Rightarrow> times @ [Timestamp previous]
                   | None \<Rightarrow> times)
      in times)"

definition AppendWithPaginationArgs :: "'t Pagination \<Rightarrow> 't list \<Rightarrow> 't list" where
  "AppendWithPaginationArgs page args = args @ GetPaginationTimestampQueryArgs page"

text \<open>The number of \<open>?\<close> placeholders a piece of SQL text holds.\<close>

definition placeholders :: "string \<Rightarrow> nat" where
  "placeholders q = length (filter (\<lambda>c. c = CHR ''?'') q)"

section \<open>Errors, panics and the outside world\<close>

text \<open>
  A Go \<open>error\<close> value is \<open>error option\<close>, \<open>None\<close> being \<open>nil\<close>. The two package-level
  sentinels of storage/rdbms.go (lines 63 and 65) and \<open>migrate.ErrNoChange\<close> are
  constructors of their own; every other error (driver, transport, migration engine)
  is \<open>OtherError\<close> with its message.
\<close>

datatype error =
    errDBConnectionNeverInitialized
  | ErrNoRowsUpdated
  | ErrNoChange
  | OtherError string

text \<open>
  A call either returns or panics. The value handed to \<open>panic\<close> is kept as
  \<open>fmt.Sprint\<close> prints it, \<open>None\<close> being \<open>panic(nil)\<close>: go.mod declares Go 1.16, where
  \<open>recover()\<close> then stops the panic and returns \<open>nil\<close>.
\<close>

datatype 'r outcome = Return 'r | Panic "string option"

text \<open>
  The database driver and the logger are outside the repository. Every call to them
  is recorded, in order, in the world; what a driver call answers is decided by the
  handle it is made on. \<open>app\<close> is the memory of the host application, which the
  closures handed to the helpers may read and write.
\<close>

type_synonym sqlArg = string

datatype driverCall =
    CallBegin
  | CallCommit nat
  | CallRollback nat
  | CallExec nat string "sqlArg list"

datatype logLevel = ErrorLevel | WarnLevel

datatype logLine = LogLine logLevel "error option" string

record 'a world =
  calls :: "driverCall list"
  logs :: "logLine list"
  app :: 'a

text \<open>
  \<open>sql.Result\<close>: what \<open>RowsAffected()\<close> returns, a count (Go \<open>int64\<close>, only compared) and
  an error.
\<close>

record sqlResult =
  RowsAffected :: "int \<times> error option"

text \<open>\<open>*sql.Tx\<close> and \<open>*sql.DB\<close>: an identity and the answers of the driver.\<close>

record 'a sqlTx =
  txId :: nat
  commitResult :: "'a world \<Rightarrow> error option"
  rollbackResult :: "'a world \<Rightarrow> error option"
  execResult :: "string \<Rightarrow> sqlArg list \<Rightarrow> 'a world \<Rightarrow> error + sqlResult"

record 'a sqlDB =
  beginResult :: "'a world \<Rightarrow> error + 'a sqlTx"

definition dbBegin :: "'a sqlDB \<Rightarrow> 'a world \<Rightarrow> (error + 'a sqlTx) \<times> 'a world" where
  "dbBegin db w = (beginResult db w, w\<lparr>calls := calls w @ [CallBegin]\<rparr>)"

definition txCommit :: "'a sqlTx \<Rightarrow> 'a world \<Rightarrow> error option \<times> 'a world" where
  "txCommit tx w = (commitResult tx w, w\<lparr>calls := calls w @ [CallCommit (txId tx)]\<rparr>)"

definition txRollback :: "'a sqlTx \<Rightarrow> 'a world \<Rightarrow> error option \<times> 'a world" where
  "txRollback tx w = (rollbackResult tx w, w\<lparr>calls := calls w @ [CallRollback (txId tx)]\<rparr>)"

definition txExec ::
    "'a sqlTx \<Rightarrow> string \<Rightarrow> sqlArg list \<Rightarrow> 'a world \<Rightarrow> (error + sqlResult) \<times> 'a world" where
  "txExec tx query args w =
     (execResult tx query args w, w\<lparr>calls := calls w @ [CallExec (txId tx) query args]\<rparr>)"

definition logError :: "error option \<Rightarrow> string \<Rightarrow> 'a world \<Rightarrow> 'a world" where
  "logError e m w = w\<lparr>logs := logs w @ [LogLine ErrorLevel e m]\<rparr>"

definition logWarn :: "string \<Rightarrow> 'a world \<Rightarrow> 'a world" where
  "logWarn m w = w\<lparr>logs := logs w @ [LogLine WarnLevel None m]\<rparr>"

section \<open>The transaction executor (storage/rdbms.go, lines 137-212)\<close>

type_synonym 'a txOp = "'a sqlTx \<Rightarrow> 'a world \<Rightarrow> error option outcome \<times> 'a world"

definition Rollback :: "'a sqlTx \<Rightarrow> 'a world \<Rightarrow> 'a world" where
  "Rollback tx w =
     (case txRollback tx w of
        (None, w') \<Rightarrow> w'
      | (Some txErr, w') \<Rightarrow> logError (Some txErr) ''tx rollback error'' w')"

text \<open>
  \<open>err\<close> is the named result. The deferred function runs on every way out; \<open>recover()\<close>
  is \<open>nil\<close> there unless \<open>txOps\<close> panicked with a value other than \<open>nil\<close>, and in each case
  the function then returns the current \<open>err\<close>, which after a panic is still the \<open>nil\<close>
  that \<open>db.Begin()\<close> returned. \<open>fmt.Sprint\<close> puts no space after a string operand.
\<close>

definition ExecuteOpsInTransaction ::
    "'a sqlDB \<Rightarrow> 'a txOp \<Rightarrow> 'a world \<Rightarrow> error option outcome \<times> 'a world" where
  "ExecuteOpsInTransaction db txOps w =
     (case dbBegin db w of
        (Inl err, w1) \<Rightarrow> (Return (Some err), w1)
      | (Inr tx, w1) \<Rightarrow>
          (case txOps tx w1 of
             (Return None, w2) \<Rightarrow>
               (case txCommit tx w2 of
                  (None, w3) \<Rightarrow> (Return None, w3)
                | (Some txErr, w3) \<Rightarrow>
                    (Return (Some txErr), logError (Some txErr) ''tx commit error'' w3))
           | (Return (Some err), w2) \<Rightarrow> (Return (Some err), Rollback tx w2)
           | (Panic None, w2) \<Rightarrow> (Return None, w2)
           | (Panic (Some r), w2) \<Rightarrow>
               (Return None,
                Rollback tx (logError None (''recovered from in-tx panic'' @ r) w2))))"

text \<open>
  \<open>prequeryOps\<close> and \<open>arguments\<close> are closures of the caller: they may touch the world
  and may panic, and a panic leaves the function at once. \<open>arguments()\<close> is evaluated
  before \<open>tx.Exec\<close> is called.
\<close>

definition ExecuteQueryInTransaction ::
    "'a sqlTx \<Rightarrow> ('a world \<Rightarrow> unit outcome \<times> 'a world) \<Rightarrow> string \<Rightarrow>
     ('a world \<Rightarrow> sqlArg list outcome \<times> 'a world) \<Rightarrow> int \<Rightarrow>
     'a world \<Rightarrow> error option outcome \<times> 'a world" where
  "ExecuteQueryInTransaction tx prequeryOps query arguments expectedRowEffected w =
     (case prequeryOps w of
        (Panic r, w1) \<Rightarrow> (Panic r, w1)
      | (Return u, w1) \<Rightarrow>
          (case arguments w1 of
             (Panic r, w2) \<Rightarrow> (Panic r, w2)
           | (Return args, w2) \<Rightarrow>
               (case txExec tx query args w2 of
                  (Inl err, w3) \<Rightarrow> (Return (Some err), w3)
                | (Inr result, w3) \<Rightarrow>
                    (case RowsAffected result of
                       (rowsAffected, err) \<Rightarrow>
                         if expectedRowEffected > 0 \<and> rowsAffected \<noteq> expectedRowEffected
                            \<and> err = None
                         then (Return (Some ErrNoRowsUpdated), w3)
                         else (Return err, w3)))))"

definition GetTxWrapperForSingleWriteQuery ::
    "('a world \<Rightarrow> unit outcome \<times> 'a world) \<Rightarrow> string \<Rightarrow>
     ('a world \<Rightarrow> sqlArg list outcome \<times> 'a world) \<Rightarrow> 'a txOp" where
  "GetTxWrapperForSingleWriteQuery prequeryOps query arguments =
     (\<lambda>tx. ExecuteQueryInTransaction tx prequeryOps query arguments 1)"

text \<open>
  The loop over the variadic \<open>ops\<close>, a nil function being \<open>None\<close>; \<open>err\<close> is the closure's
  named result, returned when the loop ends or breaks.
\<close>

fun opsLoop ::
    "'a txOp option list \<Rightarrow> 'a sqlTx \<Rightarrow> error option \<Rightarrow> 'a world \<Rightarrow>
     error option outcome \<times> 'a world" where
  "opsLoop [] tx err w = (Return err, w)"
| "opsLoop (None # ops) tx err w = opsLoop ops tx err (logWarn ''Tx Op is nil! Ignoring it'' w)"
| "opsLoop (Some op # ops) tx err w =
     (case op tx w of
        (Panic r, w') \<Rightarrow> (Panic r, w')
      | (Return (Some err'), w') \<Rightarrow> (Return (Some err'), w')
      | (Return None, w') \<Rightarrow> opsLoop ops tx None w')"

definition ExecuteMultipleWriteOpsInTransaction ::
    "'a sqlDB \<Rightarrow> 'a txOp option list \<Rightarrow> 'a world \<Rightarrow> error option outcome \<times> 'a world" where
  "ExecuteMultipleWriteOpsInTransaction db ops =
     ExecuteOpsInTransaction db (\<lambda>tx. opsLoop ops tx None)"

definition ExecuteSingleRowWriteInTransaction ::
    "'a sqlDB \<Rightarrow> ('a world \<Rightarrow> unit outcome \<times> 'a world) \<Rightarrow> string \<Rightarrow>
     ('a world \<Rightarrow> sqlArg list outcome \<times> 'a world) \<Rightarrow>
     'a world \<Rightarrow> error option outcome \<times> 'a world" where
  "ExecuteSingleRowWriteInTransaction db prequeryOps query arguments =
     ExecuteMultipleWriteOpsInTransaction db
       [Some (GetTxWrapperForSingleWriteQuery prequeryOps query arguments)]"

definition EmptyOps :: "'a world \<Rightarrow> unit outcome \<times> 'a world" where
  "EmptyOps w = (Return (), w)"

definition Args2SliceFnWrapper :: "sqlArg list \<Rightarrow> 'a world \<Rightarrow> sqlArg list outcome \<times> 'a world" where
  "Args2SliceFnWrapper args w = (Return args, w)"

section \<open>The connection pool initializer (storage/rdbms.go, lines 59-135)\<close>

text \<open>
  The fields of \<open>config.RelationalDatabaseConfig\<close> and of \<open>MigrationConfig\<close> that the
  storage package reads; durations are Go \<open>time.Duration\<close> values, the two connection
  limits are \<open>uint16\<close>.
\<close>

record RelationalDatabaseConfig =
  GetDBDialect :: string
  GetDBConnectionURL :: string
  GetDBConnectionMaxIdleTime :: int
  GetDBConnectionMaxLifetime :: int
  GetMaxIdleDBConnections :: nat
  GetMaxOpenDBConnections :: nat

record MigrationConfig =
  MigrationEnabled :: bool
  MigrationSource :: string

definition MySQLDialect :: string where
  "MySQLDialect = ''mysql''"

text \<open>
  The calls made on \<open>database/sql\<close> and on the migration engine, recorded in order,
  and what these libraries answer while one call of the initializer runs. The pool
  handle \<open>'p\<close> is opaque.
\<close>

datatype poolCall =
    SqlOpen string string
  | SetConnMaxLifetime int
  | SetMaxIdleConns int
  | SetMaxOpenConns int
  | SetConnMaxIdleTime int
  | MySQLWithInstance
  | SQLite3WithInstance
  | NewWithDatabaseInstance string string
  | MigrationUp

record 'p poolEnv =
  openResult :: "error + 'p"
  migrationDriverResult :: "error option"
  newMigrationResult :: "error option"
  upResult :: "error option"

text \<open>
  The package-level variables \<open>db\<close> and \<open>dataAccessorInitializer\<close> (the flag of the
  \<open>sync.Once\<close>), with the record of library calls.
\<close>

record 'p poolVars =
  db :: "'p option"
  dataAccessorInitializer :: bool
  poolCalls :: "poolCall list"

definition initialVars :: "'p poolVars" where
  "initialVars = \<lparr>db = None, dataAccessorInitializer = False, poolCalls = []\<rparr>"

definition called :: "poolCall \<Rightarrow> 'p poolVars \<Rightarrow> 'p poolVars" where
  "called c s = s\<lparr>poolCalls := poolCalls s @ [c]\<rparr>"

definition getDB ::
    "'p poolEnv \<Rightarrow> string \<Rightarrow> string \<Rightarrow> 'p poolVars \<Rightarrow> ('p option \<times> error option) \<times> 'p poolVars" where
  "getDB env dialect connectionURL s =
     ((case openResult env of Inl err \<Rightarrow> (None, Some err) | Inr pool \<Rightarrow> (Some pool, None)),
      called (SqlOpen dialect connectionURL) s)"

definition CreateDBConnectionPool ::
    "'p poolEnv \<Rightarrow> RelationalDatabaseConfig \<Rightarrow> 'p poolVars \<Rightarrow>
     ('p option \<times> error option) \<times> 'p poolVars" where
  "CreateDBConnectionPool env dbConfig s =
     (case getDB env (GetDBDialect dbConfig) (GetDBConnectionURL dbConfig) s of
        ((pool, None), s1) \<Rightarrow>
          ((pool, None),
           called (SetConnMaxIdleTime (GetDBConnectionMaxIdleTime dbConfig))
             (called (SetMaxOpenConns (int (GetMaxOpenDBConnections dbConfig)))
               (called (SetMaxIdleConns (int (GetMaxIdleDBConnections dbConfig)))
                 (called (SetConnMaxLifetime (GetDBConnectionMaxLifetime dbConfig)) s1))))
      | ((pool, Some err), s1) \<Rightarrow> ((pool, Some err), s1))"

definition getMigrationDriver ::
    "'p poolEnv \<Rightarrow> RelationalDatabaseConfig \<Rightarrow> 'p poolVars \<Rightarrow> error option \<times> 'p poolVars" where
  "getMigrationDriver env dbConfig s =
     (if GetDBDialect dbConfig = MySQLDialect
      then (migrationDriverResult env, called MySQLWithInstance s)
      else (migrationDriverResult env, called SQLite3WithInstance s))"

definition getMigration ::
    "'p poolEnv \<Rightarrow> string \<Rightarrow> string \<Rightarrow> 'p poolVars \<Rightarrow> error option \<times> 'p poolVars" where
  "getMigration env source dialect s =
     (newMigrationResult env, called (NewWithDatabaseInstance source dialect) s)"

text \<open>
  \<open>migrationConf\<close> is a pointer: reading \<open>MigrationEnabled\<close> through nil panics with a
  run-time error.
\<close>

definition runMigration ::
    "'p poolEnv \<Rightarrow> RelationalDatabaseConfig \<Rightarrow> MigrationConfig option \<Rightarrow> 'p poolVars \<Rightarrow>
     error option outcome \<times> 'p poolVars" where
  "runMigration env dbConfig migrationConf s =
     (case migrationConf of
        None \<Rightarrow>
          (Panic (Some ''runtime error: invalid memory address or nil pointer dereference''), s)
      | Some conf \<Rightarrow>
          if MigrationEnabled conf then
            (case getMigrationDriver env dbConfig s of
               (Some err, s1) \<Rightarrow> (Return (Some err), s1)
             | (None, s1) \<Rightarrow>
                 (case getMigration env (MigrationSource conf) (GetDBDialect dbConfig) s1 of
                    (Some err, s2) \<Rightarrow> (Return (Some err), s2)
                  | (None, s2) \<Rightarrow>
                      (let err = upResult env; s3 = called MigrationUp s2
                       in if err \<noteq> None \<and> err \<noteq> Some ErrNoChange
                          then (Return err, s3) else (Return None, s3))))
          else (Return None, s))"

text \<open>
  The function handed to \<open>dataAccessorInitializer.Do\<close>: it assigns the package variable
  \<open>db\<close> and the caller's local \<open>err\<close>, which it returns here.
\<close>

definition initBody ::
    "'p poolEnv \<Rightarrow> RelationalDatabaseConfig \<Rightarrow> MigrationConfig option \<Rightarrow> 'p poolVars \<Rightarrow>
     error option outcome \<times> 'p poolVars" where
  "initBody env dbConfig migrationConf s =
     (case CreateDBConnectionPool env dbConfig s of
        ((pool, err), s1) \<Rightarrow>
          (let s2 = s1\<lparr>db := pool\<rparr>
           in if err = None then runMigration env dbConfig migrationConf s2
              else (Return err, s2)))"

text \<open>
  \<open>sync.Once.Do\<close> runs the function only while the flag is unset and sets the flag
  when the function is left, by a return or by a panic. A panic of the function is
  not recovered by \<open>GetConfiguredConnectionPool\<close>.
\<close>

definition GetConfiguredConnectionPool ::
    "'p poolEnv \<Rightarrow> RelationalDatabaseConfig \<Rightarrow> MigrationConfig option \<Rightarrow> 'p poolVars \<Rightarrow>
     ('p option \<times> error option) outcome \<times> 'p poolVars" where
  "GetConfiguredConnectionPool env dbConfig migrationConf s =
     (let (r, s') =
            (if dataAccessorInitializer s then (Return None, s)
             else (case initBody env dbConfig migrationConf s of
                     (r, s1) \<Rightarrow> (r, s1\<lparr>dataAccessorInitializer := True\<rparr>)))
      in case r of
           Panic v \<Rightarrow> (Panic v, s')
         | Return err \<Rightarrow>
             (if db s' = None \<and> err = None
              then (Return (db s', Some errDBConnectionNeverInitialized), s')
              else (Return (db s', err), s')))"

text \<open>
  A sequence of calls, one after the other, each with its own arguments and its own
  answers of the libraries; the results are collected in order.
\<close>

fun callSequence ::
    "('p poolEnv \<times> RelationalDatabaseConfig \<times> MigrationConfig option) list \<Rightarrow> 'p poolVars \<Rightarrow>
     ('p option \<times> error option) outcome list \<times> 'p poolVars" where
  "callSequence [] s = ([], s)"
| "callSequence ((env, dbConfig, migrationConf) # rest) s =
     (case GetConfiguredConnectionPool env dbConfig migrationConf s of
        (r, s1) \<Rightarrow> (case callSequence rest s1 of (rs, s2) \<Rightarrow> (r # rs, s2)))"

definition isSqlOpen :: "poolCall \<Rightarrow> bool" where
  "isSqlOpen c = (case c of SqlOpen dialect url \<Rightarrow> True | _ \<Rightarrow> False)"

section \<open>Example handles and closures\<close>

text \<open>
  A transaction handle whose answers depend on the statement, three connection
  handles (one that opens transactions, one that cannot, one whose transactions fail
  to commit), an empty world, and a few operations; the concrete runs below use them.
\<close>

definition exampleTx :: "nat sqlTx" where
  "exampleTx =
     \<lparr>txId = 7,
      commitResult = (\<lambda>w. None),
      rollbackResult = (\<lambda>w. None),
      execResult = (\<lambda>query args w.
        if query = ''BROKEN'' then Inl (OtherError ''syntax error'')
        else if query = ''UPDATE nothing'' then Inr \<lparr>RowsAffected = (0, None)\<rparr>
        else if query = ''UPDATE all'' then Inr \<lparr>RowsAffected = (3, None)\<rparr>
        else Inr \<lparr>RowsAffected = (1, None)\<rparr>)\<rparr>"

definition exampleDB :: "nat sqlDB" where
  "exampleDB = \<lparr>beginResult = (\<lambda>w. Inr exampleTx)\<rparr>"

definition brokenDB :: "nat sqlDB" where
  "brokenDB = \<lparr>beginResult = (\<lambda>w. Inl (OtherError ''connection refused''))\<rparr>"

definition failingCommitDB :: "nat sqlDB" where
  "failingCommitDB =
     \<lparr>beginResult = (\<lambda>w. Inr (exampleTx\<lparr>commitResult := (\<lambda>w. Some (OtherError ''commit failed''))\<rparr>))\<rparr>"

definition world0 :: "nat world" where
  "world0 = \<lparr>calls = [], logs = [], app = 0\<rparr>"

definition countingOp :: "nat txOp" where
  "countingOp tx w = (Return None, w\<lparr>app := app w + 1\<rparr>)"

definition failingOp :: "nat txOp" where
  "failingOp tx w = (Return (Some (OtherError ''constraint violated'')), w\<lparr>app := app w + 1\<rparr>)"

definition insertOp :: "string \<Rightarrow> nat txOp" where
  "insertOp name = GetTxWrapperForSingleWriteQuery EmptyOps ''INSERT'' (Args2SliceFnWrapper [name])"

definition updateNothingOp :: "nat txOp" where
  "updateNothingOp =
     GetTxWrapperForSingleWriteQuery EmptyOps ''UPDATE nothing'' (Args2SliceFnWrapper [])"

text \<open>
  A configuration with migration enabled, a library environment in which everything
  succeeds, and one in which the pool cannot be opened.
\<close>

definition exampleConfig :: RelationalDatabaseConfig where
  "exampleConfig =
     \<lparr>GetDBDialect = ''sqlite3'', GetDBConnectionURL = ''database.sqlite3'',
      GetDBConnectionMaxIdleTime = 0, GetDBConnectionMaxLifetime = 0,
      GetMaxIdleDBConnections = 10, GetMaxOpenDBConnections = 50\<rparr>"

definition exampleMigrationConf :: MigrationConfig where
  "exampleMigrationConf = \<lparr>MigrationEnabled = True, MigrationSource = ''file://migration''\<rparr>"

definition workingEnv :: "nat poolEnv" where
  "workingEnv =
     \<lparr>openResult = Inr 1, migrationDriverResult = None, newMigrationResult = None,
      upResult = Some ErrNoChange\<rparr>"

definition unreachableEnv :: "nat poolEnv" where
  "unreachableEnv = workingEnv\<lparr>openResult := Inl (OtherError ''unknown driver'')\<rparr>"

section \<open>Properties of the fragment generator\<close>

lemmas clause_defs =
  baseOrderByClause_def pageSizeWithOrder_def mediumPageSizeWithOrder_def
  largePageSizeWithOrder_def extraLargePageSizeWithOrder_def
  baseOrderByClauseOpposite_def pageSizeWithOrderOpposite_def
  mediumPageSizeWithOrderOpposite_def largePageSizeWithOrderOpposite_def
  extraLargePageSizeWithOrderOpposite_def

lemmas tier_defs =
  RegularPageSize_def MediumPageSize_def LargePageSize_def ExtraLargePageSize_def

text \<open>
  C1. When both cursors of a pagination are set, the fragment is the one produced for
  the same pagination with \<open>Previous\<close> cleared: \<open>Next\<close> wins, for every append flag and
  every page size.
\<close>

theorem next_takes_priority:
  assumes "Next p \<noteq> None" and "Previous p \<noteq> None"
  shows "GetPaginationQueryFragmentWithConfigurablePageSize p append' tier =
         GetPaginationQueryFragmentWithConfigurablePageSize (p\<lparr>Previous := None\<rparr>) append' tier"
  using assms
  by (auto simp: GetPaginationQueryFragmentWithConfigurablePageSize_def)

theorem next_takes_priority_witness:
  "Next \<lparr>Previous = Some \<lparr>ID = ''a1'', Timestamp = (5::nat)\<rparr>,
         Next = Some \<lparr>ID = ''b2'', Timestamp = 9\<rparr>\<rparr> \<noteq> None \<and>
   Previous \<lparr>Previous = Some \<lparr>ID = ''a1'', Timestamp = (5::nat)\<rparr>,
             Next = Some \<lparr>ID = ''b2'', Timestamp = 9\<rparr>\<rparr> \<noteq> None \<and>
   GetPaginationQueryFragmentWithConfigurablePageSize
     \<lparr>Previous = Some \<lparr>ID = ''a1'', Timestamp = (5::nat)\<rparr>,
      Next = Some \<lparr>ID = ''b2'', Timestamp = 9\<rparr>\<rparr> False MediumPageSize =
   GetPaginationQueryFragmentWithConfigurablePageSize
     \<lparr>Previous = None, Next = Some \<lparr>ID = ''b2'', Timestamp = (9::nat)\<rparr>\<rparr> False MediumPageSize \<and>
   GetPaginationQueryFragmentWithConfigurablePageSize
     \<lparr>Previous = None, Next = Some \<lparr>ID = ''b2'', Timestamp = (9::nat)\<rparr>\<rparr> False MediumPageSize =
   '' WHERE id < '' @ [CHR 0x27] @ ''b2'' @ [CHR 0x27] @
   '' AND createdAt <= ? ORDER BY createdAt desc, id desc LIMIT 50''"
  using next_takes_priority
    [of "\<lparr>Previous = Some \<lparr>ID = ''a1'', Timestamp = (5::nat)\<rparr>,
          Next = Some \<lparr>ID = ''b2'', Timestamp = 9\<rparr>\<rparr>" False MediumPageSize]
  by (simp add: GetPaginationQueryFragmentWithConfigurablePageSize_def orderByForward_def
      clause_defs tier_defs)

text \<open>
  With a single cursor, or none, the bind values are those of the one placeholder of
  the fragment; with both cursors there are two of them.
\<close>

lemma timestamp_args_single_cursor:
  "Previous p = None \<Longrightarrow> Next p = Some c \<Longrightarrow> GetPaginationTimestampQueryArgs p = [Timestamp c]"
  "Next p = None \<Longrightarrow> Previous p = Some c \<Longrightarrow> GetPaginationTimestampQueryArgs p = [Timestamp c]"
  "Next p = None \<Longrightarrow> Previous p = None \<Longrightarrow> GetPaginationTimestampQueryArgs p = []"
  by (simp_all add: GetPaginationTimestampQueryArgs_def)

lemma timestamp_args_both:
  "Next p = Some c \<Longrightarrow> Previous p = Some d \<Longrightarrow>
   GetPaginationTimestampQueryArgs p = [Timestamp c, Timestamp d]"
  by (simp add: GetPaginationTimestampQueryArgs_def)

text \<open>
  C2. The bind values are said to follow the precedence of the fragment builder, one
  value for its one placeholder. With both cursors set the function returns two
  values, the timestamp of \<open>Next\<close> and then the timestamp of \<open>Previous\<close>, while the
  fragment built from the same pagination holds a single placeholder.
\<close>

theorem timestamp_args_both_cursors:
  "GetPaginationTimestampQueryArgs
     \<lparr>Previous = Some \<lparr>ID = ''a1'', Timestamp = (5::nat)\<rparr>,
      Next = Some \<lparr>ID = ''b2'', Timestamp = 9\<rparr>\<rparr> = [9, 5] \<and>
   placeholders (GetPaginationQueryFragmentWithConfigurablePageSize
     \<lparr>Previous = Some \<lparr>ID = ''a1'', Timestamp = (5::nat)\<rparr>,
      Next = Some \<lparr>ID = ''b2'', Timestamp = 9\<rparr>\<rparr> False RegularPageSize) = 1"
  by (simp add: GetPaginationTimestampQueryArgs_def placeholders_def
      GetPaginationQueryFragmentWithConfigurablePageSize_def orderByForward_def
      clause_defs tier_defs)

text \<open>The three shapes of the fragment, and the clause each tier selects.\<close>

lemma fragment_next:
  "Next p = Some c \<Longrightarrow>
   GetPaginationQueryFragmentWithConfigurablePageSize p append' tier =
     ('' '' @ (if append' then ''AND '' else ''WHERE '') @ ''id < '' @ [CHR 0x27] @ ID c
        @ [CHR 0x27] @ '' AND createdAt <= ? '') @ orderByForward tier"
  by (simp add: GetPaginationQueryFragmentWithConfigurablePageSize_def)

lemma fragment_previous:
  "Next p = None \<Longrightarrow> Previous p = Some c \<Longrightarrow>
   GetPaginationQueryFragmentWithConfigurablePageSize p append' tier =
     ('' '' @ (if append' then ''AND '' else ''WHERE '') @ ''id > '' @ [CHR 0x27] @ ID c
        @ [CHR 0x27] @ '' AND createdAt >= ? '') @ orderByOpposite tier"
  by (simp add: GetPaginationQueryFragmentWithConfigurablePageSize_def)

lemma fragment_open:
  "Next p = None \<Longrightarrow> Previous p = None \<Longrightarrow>
   GetPaginationQueryFragmentWithConfigurablePageSize p append' tier = '' '' @ orderByForward tier"
  by (simp add: GetPaginationQueryFragmentWithConfigurablePageSize_def)

lemma orderByForward_tiers:
  "tier \<in> {RegularPageSize, MediumPageSize, LargePageSize, ExtraLargePageSize} \<Longrightarrow>
   orderByForward tier =
     ''ORDER BY createdAt desc, id desc''
     @ (if tier = RegularPageSize then '' LIMIT 25''
        else if tier = MediumPageSize then '' LIMIT 50''
        else if tier = LargePageSize then '' LIMIT 100''
        else '' LIMIT 500'')"
  by (auto simp: orderByForward_def clause_defs tier_defs)

lemma orderByOpposite_tiers:
  "tier \<in> {RegularPageSize, MediumPageSize, LargePageSize, ExtraLargePageSize} \<Longrightarrow>
   orderByOpposite tier =
     ''ORDER BY createdAt asc, id asc''
     @ (if tier = RegularPageSize then '' LIMIT 25''
        else if tier = MediumPageSize then '' LIMIT 50''
        else if tier = LargePageSize then '' LIMIT 100''
        else '' LIMIT 500'')"
  by (auto simp: orderByOpposite_def clause_defs tier_defs)

text \<open>
  C3. For each of the four tiers the fragment ends with \<open>LIMIT\<close> 25, 50, 100 or 500,
  right after its ordering clause, which is ascending by (createdAt, id) when only a
  \<open>Previous\<close> cursor is set and descending when a \<open>Next\<close> cursor is set or no cursor is.
\<close>

theorem fragment_tier_and_direction:
  assumes tier: "tier \<in> {RegularPageSize, MediumPageSize, LargePageSize, ExtraLargePageSize}"
  shows "\<exists>predicate.
           GetPaginationQueryFragmentWithConfigurablePageSize p append' tier =
             predicate
             @ (if Next p = None \<and> Previous p \<noteq> None
                then ''ORDER BY createdAt asc, id asc''
                else ''ORDER BY createdAt desc, id desc'')
             @ (if tier = RegularPageSize then '' LIMIT 25''
                else if tier = MediumPageSize then '' LIMIT 50''
                else if tier = LargePageSize then '' LIMIT 100''
                else '' LIMIT 500'')"
proof (cases "Next p")
  case (Some c)
  show ?thesis
    unfolding fragment_next [OF Some] orderByForward_tiers [OF tier]
    using Some by (intro exI [where x = "'' '' @ (if append' then ''AND '' else ''WHERE '') @ ''id < '' @ [CHR 0x27] @ ID c @ [CHR 0x27] @ '' AND createdAt <= ? ''"]) simp
next
  case None
  show ?thesis
  proof (cases "Previous p")
    case (Some c)
    show ?thesis
      unfolding fragment_previous [OF None Some] orderByOpposite_tiers [OF tier]
      using None Some by (intro exI [where x = "'' '' @ (if append' then ''AND '' else ''WHERE '') @ ''id > '' @ [CHR 0x27] @ ID c @ [CHR 0x27] @ '' AND createdAt >= ? ''"]) simp
  next
    case Prev: None
    show ?thesis
      unfolding fragment_open [OF None Prev] orderByForward_tiers [OF tier]
      using None Prev by (intro exI [where x = "'' ''"]) simp
  qed
qed

theorem fragment_tier_and_direction_witness:
  "LargePageSize \<in> {RegularPageSize, MediumPageSize, LargePageSize, ExtraLargePageSize} \<and>
   (\<exists>predicate.
      GetPaginationQueryFragmentWithConfigurablePageSize
        \<lparr>Previous = Some \<lparr>ID = ''a1'', Timestamp = (5::nat)\<rparr>, Next = None\<rparr> True LargePageSize =
      predicate @ ''ORDER BY createdAt asc, id asc'' @ '' LIMIT 100'')"
  using fragment_tier_and_direction
    [of LargePageSize "\<lparr>Previous = Some \<lparr>ID = ''a1'', Timestamp = (5::nat)\<rparr>, Next = None\<rparr>" True]
  by (simp add: tier_defs)

section \<open>Properties of the transaction executor\<close>

lemma Rollback_calls: "calls (Rollback tx w) = calls w @ [CallRollback (txId tx)]"
  by (simp add: Rollback_def txRollback_def logError_def split: option.splits)

lemma ExecuteOps_begin_fails:
  "dbBegin conn w = (Inl e, w1) \<Longrightarrow> ExecuteOpsInTransaction conn txOps w = (Return (Some e), w1)"
  by (simp add: ExecuteOpsInTransaction_def)

lemma ExecuteOps_ops_error:
  "dbBegin conn w = (Inr tx, w1) \<Longrightarrow> txOps tx w1 = (Return (Some e), w2) \<Longrightarrow>
   ExecuteOpsInTransaction conn txOps w = (Return (Some e), Rollback tx w2)"
  by (simp add: ExecuteOpsInTransaction_def)

lemma ExecuteOps_ops_ok:
  "dbBegin conn w = (Inr tx, w1) \<Longrightarrow> txOps tx w1 = (Return None, w2) \<Longrightarrow>
   ExecuteOpsInTransaction conn txOps w =
     (case commitResult tx w2 of
        None \<Rightarrow> (Return None, w2\<lparr>calls := calls w2 @ [CallCommit (txId tx)]\<rparr>)
      | Some txErr \<Rightarrow>
          (Return (Some txErr),
           logError (Some txErr) ''tx commit error''
             (w2\<lparr>calls := calls w2 @ [CallCommit (txId tx)]\<rparr>)))"
  by (simp add: ExecuteOpsInTransaction_def txCommit_def split: option.splits)

lemma ExecuteOps_panic_value:
  "dbBegin conn w = (Inr tx, w1) \<Longrightarrow> txOps tx w1 = (Panic (Some r), w2) \<Longrightarrow>
   ExecuteOpsInTransaction conn txOps w =
     (Return None, Rollback tx (logError None (''recovered from in-tx panic'' @ r) w2))"
  by (simp add: ExecuteOpsInTransaction_def)

lemma ExecuteOps_panic_nil:
  "dbBegin conn w = (Inr tx, w1) \<Longrightarrow> txOps tx w1 = (Panic None, w2) \<Longrightarrow>
   ExecuteOpsInTransaction conn txOps w = (Return None, w2)"
  by (simp add: ExecuteOpsInTransaction_def)

lemma Rollback_logs:
  "logs (Rollback tx w) =
     logs w @ (case rollbackResult tx w of None \<Rightarrow> []
               | Some txErr \<Rightarrow> [LogLine ErrorLevel (Some txErr) ''tx rollback error''])"
  by (simp add: Rollback_def txRollback_def logError_def split: option.splits)

lemmas example_defs =
  exampleTx_def exampleDB_def brokenDB_def failingCommitDB_def world0_def countingOp_def
  failingOp_def

lemmas executor_defs =
  ExecuteOpsInTransaction_def dbBegin_def txCommit_def txRollback_def txExec_def Rollback_def
  logError_def logWarn_def

lemmas write_defs =
  ExecuteSingleRowWriteInTransaction_def ExecuteMultipleWriteOpsInTransaction_def
  GetTxWrapperForSingleWriteQuery_def ExecuteQueryInTransaction_def EmptyOps_def
  Args2SliceFnWrapper_def insertOp_def updateNothingOp_def

text \<open>
  C4. If \<open>db.Begin()\<close> fails, its error is returned and the world is the one \<open>Begin\<close>
  left, whatever \<open>txOps\<close> is: the closure is not invoked. If \<open>txOps\<close> returns an error,
  the next driver call is \<open>Rollback\<close> and that error is returned. If \<open>txOps\<close> returns nil,
  the next driver call is \<open>Commit\<close> and the function returns what \<open>Commit\<close> returned, nil
  or the commit error.
\<close>

theorem execute_ops_outcomes:
  "(dbBegin conn w = (Inl e, w1) \<longrightarrow>
      ExecuteOpsInTransaction conn txOps w = (Return (Some e), w1) \<and>
      w1 = w\<lparr>calls := calls w @ [CallBegin]\<rparr>) \<and>
   (dbBegin conn w = (Inr tx, w1) \<and> txOps tx w1 = (Return (Some e), w2) \<longrightarrow>
      ExecuteOpsInTransaction conn txOps w = (Return (Some e), Rollback tx w2) \<and>
      calls (Rollback tx w2) = calls w2 @ [CallRollback (txId tx)]) \<and>
   (dbBegin conn w = (Inr tx, w1) \<and> txOps tx w1 = (Return None, w2) \<longrightarrow>
      fst (ExecuteOpsInTransaction conn txOps w) = Return (commitResult tx w2) \<and>
      calls (snd (ExecuteOpsInTransaction conn txOps w)) = calls w2 @ [CallCommit (txId tx)])"
proof (intro conjI impI)
  assume b: "dbBegin conn w = (Inl e, w1)"
  then show "ExecuteOpsInTransaction conn txOps w = (Return (Some e), w1)"
    by (rule ExecuteOps_begin_fails)
  from b show "w1 = w\<lparr>calls := calls w @ [CallBegin]\<rparr>"
    by (simp add: dbBegin_def)
next
  assume "dbBegin conn w = (Inr tx, w1) \<and> txOps tx w1 = (Return (Some e), w2)"
  then show "ExecuteOpsInTransaction conn txOps w = (Return (Some e), Rollback tx w2)"
    by (simp add: ExecuteOps_ops_error)
next
  show "calls (Rollback tx w2) = calls w2 @ [CallRollback (txId tx)]"
    by (rule Rollback_calls)
next
  assume a: "dbBegin conn w = (Inr tx, w1) \<and> txOps tx w1 = (Return None, w2)"
  then have r: "ExecuteOpsInTransaction conn txOps w =
     (case commitResult tx w2 of
        None \<Rightarrow> (Return None, w2\<lparr>calls := calls w2 @ [CallCommit (txId tx)]\<rparr>)
      | Some txErr \<Rightarrow>
          (Return (Some txErr),
           logError (Some txErr) ''tx commit error''
             (w2\<lparr>calls := calls w2 @ [CallCommit (txId tx)]\<rparr>)))"
    by (simp add: ExecuteOps_ops_ok)
  show "fst (ExecuteOpsInTransaction conn txOps w) = Return (commitResult tx w2)"
    unfolding r by (simp split: option.splits)
  show "calls (snd (ExecuteOpsInTransaction conn txOps w)) = calls w2 @ [CallCommit (txId tx)]"
    unfolding r by (simp add: logError_def split: option.splits)
qed

theorem execute_ops_outcomes_witness:
  "dbBegin brokenDB world0 =
     (Inl (OtherError ''connection refused''), \<lparr>calls = [CallBegin], logs = [], app = 0\<rparr>) \<and>
   ExecuteOpsInTransaction brokenDB countingOp world0 =
     (Return (Some (OtherError ''connection refused'')),
      \<lparr>calls = [CallBegin], logs = [], app = 0\<rparr>) \<and>
   dbBegin exampleDB world0 = (Inr exampleTx, \<lparr>calls = [CallBegin], logs = [], app = 0\<rparr>) \<and>
   failingOp exampleTx \<lparr>calls = [CallBegin], logs = [], app = 0\<rparr> =
     (Return (Some (OtherError ''constraint violated'')),
      \<lparr>calls = [CallBegin], logs = [], app = 1\<rparr>) \<and>
   ExecuteOpsInTransaction exampleDB failingOp world0 =
     (Return (Some (OtherError ''constraint violated'')),
      \<lparr>calls = [CallBegin, CallRollback 7], logs = [], app = 1\<rparr>) \<and>
   countingOp exampleTx \<lparr>calls = [CallBegin], logs = [], app = 0\<rparr> =
     (Return None, \<lparr>calls = [CallBegin], logs = [], app = 1\<rparr>) \<and>
   fst (ExecuteOpsInTransaction exampleDB countingOp world0) = Return None \<and>
   calls (snd (ExecuteOpsInTransaction exampleDB countingOp world0)) = [CallBegin, CallCommit 7] \<and>
   fst (ExecuteOpsInTransaction failingCommitDB countingOp world0) =
     Return (Some (OtherError ''commit failed''))"
  using
    execute_ops_outcomes [where conn = brokenDB and w = world0 and txOps = countingOp
      and e = "OtherError ''connection refused''"
      and ?w1.0 = "\<lparr>calls = [CallBegin], logs = [], app = 0\<rparr>"]
    execute_ops_outcomes [where conn = exampleDB and w = world0 and txOps = failingOp
      and tx = exampleTx and e = "OtherError ''constraint violated''"
      and ?w1.0 = "\<lparr>calls = [CallBegin], logs = [], app = 0\<rparr>"
      and ?w2.0 = "\<lparr>calls = [CallBegin], logs = [], app = 1\<rparr>"]
    execute_ops_outcomes [where conn = exampleDB and w = world0 and txOps = countingOp
      and tx = exampleTx
      and ?w1.0 = "\<lparr>calls = [CallBegin], logs = [], app = 0\<rparr>"
      and ?w2.0 = "\<lparr>calls = [CallBegin], logs = [], app = 1\<rparr>"]
  by (simp add: example_defs executor_defs)

text \<open>
  A panic with a value other than nil is recovered: it is logged, the transaction is
  rolled back and the function returns nil.
\<close>

lemma panic_value_rolls_back:
  assumes "dbBegin conn w = (Inr tx, w1)" and "txOps tx w1 = (Panic (Some r), w2)"
  shows "fst (ExecuteOpsInTransaction conn txOps w) = Return None"
    and "calls (snd (ExecuteOpsInTransaction conn txOps w)) = calls w2 @ [CallRollback (txId tx)]"
    and "LogLine ErrorLevel None (''recovered from in-tx panic'' @ r)
           \<in> set (logs (snd (ExecuteOpsInTransaction conn txOps w)))"
proof -
  have r: "ExecuteOpsInTransaction conn txOps w =
     (Return None, Rollback tx (logError None (''recovered from in-tx panic'' @ r) w2))"
    using assms by (rule ExecuteOps_panic_value)
  show "fst (ExecuteOpsInTransaction conn txOps w) = Return None"
    unfolding r by simp
  show "calls (snd (ExecuteOpsInTransaction conn txOps w)) = calls w2 @ [CallRollback (txId tx)]"
    unfolding r by (simp add: Rollback_calls) (simp add: logError_def)
  show "LogLine ErrorLevel None (''recovered from in-tx panic'' @ r)
           \<in> set (logs (snd (ExecuteOpsInTransaction conn txOps w)))"
    unfolding r snd_conv Rollback_logs by (simp add: logError_def)
qed

text \<open>
  C5. Every panic of \<open>txOps\<close> is said to be recovered, logged and followed by a
  rollback, the function returning normally. A closure that runs \<open>panic(nil)\<close> is
  recovered too and the function returns nil, but \<open>recover()\<close> is nil, the guard
  \<open>r != nil\<close> fails, and nothing is logged and no \<open>Rollback\<close> is called: the transaction
  stays open.
\<close>

theorem panic_nil_leaves_transaction_open:
  "ExecuteOpsInTransaction exampleDB (\<lambda>tx w. (Panic None, w\<lparr>app := 1\<rparr>)) world0 =
     (Return None, \<lparr>calls = [CallBegin], logs = [], app = 1\<rparr>)"
  by (simp add: example_defs executor_defs)

text \<open>
  C10. When \<open>txOps\<close> panics after a successful \<open>Begin\<close>, with any value, the returned
  error is nil: the same return value as that of a run whose \<open>txOps\<close> returned nil and
  whose commit succeeded.
\<close>

theorem panic_returns_nil_error:
  assumes "dbBegin conn w = (Inr tx, w1)" and "txOps tx w1 = (Panic r, w2)"
    and "txOps' tx w1 = (Return None, w2')" and "commitResult tx w2' = None"
  shows "fst (ExecuteOpsInTransaction conn txOps w) = Return None \<and>
         fst (ExecuteOpsInTransaction conn txOps' w) = fst (ExecuteOpsInTransaction conn txOps w)"
proof -
  have p: "fst (ExecuteOpsInTransaction conn txOps w) = Return None"
  proof (cases r)
    case None
    with assms(1,2) show ?thesis by (simp add: ExecuteOps_panic_nil)
  next
    case (Some v)
    with assms(1,2) show ?thesis by (simp add: ExecuteOps_panic_value)
  qed
  have c: "fst (ExecuteOpsInTransaction conn txOps' w) = Return None"
    using assms(1,3,4) by (simp add: ExecuteOps_ops_ok)
  from p c show ?thesis by simp
qed

theorem panic_returns_nil_error_witness:
  "dbBegin exampleDB world0 = (Inr exampleTx, \<lparr>calls = [CallBegin], logs = [], app = 0\<rparr>) \<and>
   (\<lambda>tx w. (Panic (Some ''boom''), w)) exampleTx \<lparr>calls = [CallBegin], logs = [], app = 0\<rparr> =
     (Panic (Some ''boom''), \<lparr>calls = [CallBegin], logs = [], app = (0::nat)\<rparr>) \<and>
   countingOp exampleTx \<lparr>calls = [CallBegin], logs = [], app = 0\<rparr> =
     (Return None, \<lparr>calls = [CallBegin], logs = [], app = 1\<rparr>) \<and>
   commitResult exampleTx \<lparr>calls = [CallBegin], logs = [], app = 1\<rparr> = None \<and>
   ExecuteOpsInTransaction exampleDB (\<lambda>tx w. (Panic (Some ''boom''), w)) world0 =
     (Return None,
      \<lparr>calls = [CallBegin, CallRollback 7],
       logs = [LogLine ErrorLevel None ''recovered from in-tx panicboom''], app = 0\<rparr>) \<and>
   ExecuteOpsInTransaction exampleDB countingOp world0 =
     (Return None, \<lparr>calls = [CallBegin, CallCommit 7], logs = [], app = 1\<rparr>)"
  using panic_returns_nil_error
    [where conn = exampleDB and w = world0 and tx = exampleTx
      and txOps = "\<lambda>tx w. (Panic (Some ''boom''), w)" and r = "Some ''boom''"
      and txOps' = countingOp
      and ?w1.0 = "\<lparr>calls = [CallBegin], logs = [], app = 0\<rparr>"
      and ?w2.0 = "\<lparr>calls = [CallBegin], logs = [], app = 0\<rparr>"
      and w2' = "\<lparr>calls = [CallBegin], logs = [], app = 1\<rparr>"]
  by (simp add: example_defs executor_defs)

text \<open>The loop over a list that is split in two.\<close>

lemma opsLoop_append:
  "opsLoop (xs @ ys) tx None w =
     (case opsLoop xs tx None w of
        (Return None, w') \<Rightarrow> opsLoop ys tx None w'
      | (Return (Some e), w') \<Rightarrow> (Return (Some e), w')
      | (Panic r, w') \<Rightarrow> (Panic r, w'))"
proof (induction xs arbitrary: w)
  case Nil
  show ?case by simp
next
  case (Cons x xs)
  show ?case
  proof (cases x)
    case None
    then show ?thesis using Cons.IH by simp
  next
    case (Some op)
    then show ?thesis using Cons.IH
      by (simp split: prod.splits outcome.splits option.splits)
  qed
qed

text \<open>
  C6. A statement run by \<open>ExecuteSingleRowWriteInTransaction\<close>, or by a wrapper from
  \<open>GetTxWrapperForSingleWriteQuery\<close>, for which neither \<open>Exec\<close> nor \<open>RowsAffected\<close> reports
  an error: with 0 or more than 1 row affected both return \<open>ErrNoRowsUpdated\<close>; with
  exactly 1 row affected the wrapper returns nil and the call returns what the commit
  returns.
\<close>

theorem single_row_write_guard:
  assumes "dbBegin conn w = (Inr tx, w1)"
    and "prequeryOps w1 = (Return (), w2)" and "arguments w2 = (Return as, w3)"
    and "execResult tx query as w3 = Inr result" and "RowsAffected result = (n, None)"
  shows "((n = 0 \<or> 1 < n) \<longrightarrow>
            fst (GetTxWrapperForSingleWriteQuery prequeryOps query arguments tx w1) =
              Return (Some ErrNoRowsUpdated) \<and>
            fst (ExecuteSingleRowWriteInTransaction conn prequeryOps query arguments w) =
              Return (Some ErrNoRowsUpdated)) \<and>
         (n = 1 \<longrightarrow>
            fst (GetTxWrapperForSingleWriteQuery prequeryOps query arguments tx w1) = Return None \<and>
            fst (ExecuteSingleRowWriteInTransaction conn prequeryOps query arguments w) =
              Return (commitResult tx (w3\<lparr>calls := calls w3 @ [CallExec (txId tx) query as]\<rparr>)))"
proof -
  let ?w4 = "w3\<lparr>calls := calls w3 @ [CallExec (txId tx) query as]\<rparr>"
  let ?e = "if n \<noteq> 1 then Some ErrNoRowsUpdated else None"
  have wrap: "GetTxWrapperForSingleWriteQuery prequeryOps query arguments tx w1 = (Return ?e, ?w4)"
    using assms(2-5)
    by (simp add: GetTxWrapperForSingleWriteQuery_def ExecuteQueryInTransaction_def txExec_def)
  have loop: "opsLoop [Some (GetTxWrapperForSingleWriteQuery prequeryOps query arguments)] tx None w1
                = (Return ?e, ?w4)"
    using wrap by (simp split: option.splits)
  have bad: "n \<noteq> 1 \<Longrightarrow>
      fst (ExecuteSingleRowWriteInTransaction conn prequeryOps query arguments w) =
        Return (Some ErrNoRowsUpdated)"
    unfolding ExecuteSingleRowWriteInTransaction_def ExecuteMultipleWriteOpsInTransaction_def
    using assms(1) loop
      ExecuteOps_ops_error [where conn = conn and w = w and tx = tx and ?w1.0 = w1
        and e = ErrNoRowsUpdated and ?w2.0 = ?w4
        and txOps = "\<lambda>tx. opsLoop [Some (GetTxWrapperForSingleWriteQuery prequeryOps query arguments)] tx None"]
    by simp
  have good: "n = 1 \<Longrightarrow>
      fst (ExecuteSingleRowWriteInTransaction conn prequeryOps query arguments w) =
        Return (commitResult tx ?w4)"
    unfolding ExecuteSingleRowWriteInTransaction_def ExecuteMultipleWriteOpsInTransaction_def
    using assms(1) loop
      ExecuteOps_ops_ok [where conn = conn and w = w and tx = tx and ?w1.0 = w1 and ?w2.0 = ?w4
        and txOps = "\<lambda>tx. opsLoop [Some (GetTxWrapperForSingleWriteQuery prequeryOps query arguments)] tx None"]
    by (simp split: option.splits)
  show ?thesis using wrap bad good by auto
qed

theorem single_row_write_guard_witness:
  "dbBegin exampleDB world0 = (Inr exampleTx, \<lparr>calls = [CallBegin], logs = [], app = 0\<rparr>) \<and>
   EmptyOps \<lparr>calls = [CallBegin], logs = [], app = 0\<rparr> =
     (Return (), \<lparr>calls = [CallBegin], logs = [], app = (0::nat)\<rparr>) \<and>
   Args2SliceFnWrapper [] \<lparr>calls = [CallBegin], logs = [], app = 0\<rparr> =
     (Return [], \<lparr>calls = [CallBegin], logs = [], app = (0::nat)\<rparr>) \<and>
   execResult exampleTx ''UPDATE nothing'' [] \<lparr>calls = [CallBegin], logs = [], app = 0\<rparr> =
     Inr \<lparr>RowsAffected = (0, None)\<rparr> \<and>
   execResult exampleTx ''UPDATE all'' [] \<lparr>calls = [CallBegin], logs = [], app = 0\<rparr> =
     Inr \<lparr>RowsAffected = (3, None)\<rparr> \<and>
   execResult exampleTx ''UPDATE one'' [] \<lparr>calls = [CallBegin], logs = [], app = 0\<rparr> =
     Inr \<lparr>RowsAffected = (1, None)\<rparr> \<and>
   ExecuteSingleRowWriteInTransaction exampleDB EmptyOps ''UPDATE nothing''
       (Args2SliceFnWrapper []) world0 =
     (Return (Some ErrNoRowsUpdated),
      \<lparr>calls = [CallBegin, CallExec 7 ''UPDATE nothing'' [], CallRollback 7], logs = [],
       app = 0\<rparr>) \<and>
   ExecuteSingleRowWriteInTransaction exampleDB EmptyOps ''UPDATE all''
       (Args2SliceFnWrapper []) world0 =
     (Return (Some ErrNoRowsUpdated),
      \<lparr>calls = [CallBegin, CallExec 7 ''UPDATE all'' [], CallRollback 7], logs = [],
       app = 0\<rparr>) \<and>
   ExecuteSingleRowWriteInTransaction exampleDB EmptyOps ''UPDATE one''
       (Args2SliceFnWrapper []) world0 =
     (Return None,
      \<lparr>calls = [CallBegin, CallExec 7 ''UPDATE one'' [], CallCommit 7], logs = [], app = 0\<rparr>)"
  using
    single_row_write_guard [where conn = exampleDB and w = world0 and tx = exampleTx
      and prequeryOps = EmptyOps and arguments = "Args2SliceFnWrapper []"
      and query = "''UPDATE nothing''" and as = "[]" and n = 0
      and result = "\<lparr>RowsAffected = (0, None)\<rparr>"
      and ?w1.0 = "\<lparr>calls = [CallBegin], logs = [], app = 0\<rparr>"
      and ?w2.0 = "\<lparr>calls = [CallBegin], logs = [], app = 0\<rparr>"
      and ?w3.0 = "\<lparr>calls = [CallBegin], logs = [], app = 0\<rparr>"]
    single_row_write_guard [where conn = exampleDB and w = world0 and tx = exampleTx
      and prequeryOps = EmptyOps and arguments = "Args2SliceFnWrapper []"
      and query = "''UPDATE all''" and as = "[]" and n = 3
      and result = "\<lparr>RowsAffected = (3, None)\<rparr>"
      and ?w1.0 = "\<lparr>calls = [CallBegin], logs = [], app = 0\<rparr>"
      and ?w2.0 = "\<lparr>calls = [CallBegin], logs = [], app = 0\<rparr>"
      and ?w3.0 = "\<lparr>calls = [CallBegin], logs = [], app = 0\<rparr>"]
    single_row_write_guard [where conn = exampleDB and w = world0 and tx = exampleTx
      and prequeryOps = EmptyOps and arguments = "Args2SliceFnWrapper []"
      and query = "''UPDATE one''" and as = "[]" and n = 1
      and result = "\<lparr>RowsAffected = (1, None)\<rparr>"
      and ?w1.0 = "\<lparr>calls = [CallBegin], logs = [], app = 0\<rparr>"
      and ?w2.0 = "\<lparr>calls = [CallBegin], logs = [], app = 0\<rparr>"
      and ?w3.0 = "\<lparr>calls = [CallBegin], logs = [], app = 0\<rparr>"]
  by (simp add: example_defs executor_defs write_defs)

text \<open>
  C7. Inside the transaction a nil entry only adds a warning to the log and the loop
  goes on with the entries after it; a list ending in a nil entry is committed.
  When an op returns an error after the entries before it ran without one, that
  error is returned whatever the remaining entries are, and the only driver call
  made after the failing op is \<open>Rollback\<close>: no \<open>Commit\<close> is issued for the transaction.
\<close>

theorem multiple_writes_all_or_nothing:
  assumes "dbBegin conn w = (Inr tx, w1)" and "opsLoop pre tx None w1 = (Return None, w2)"
  shows "opsLoop (pre @ None # post) tx None w1 =
           opsLoop post tx None (logWarn ''Tx Op is nil! Ignoring it'' w2) \<and>
         fst (ExecuteMultipleWriteOpsInTransaction conn (pre @ [None]) w) =
           Return (commitResult tx (logWarn ''Tx Op is nil! Ignoring it'' w2)) \<and>
         (op tx w2 = (Return (Some e), w3) \<longrightarrow>
            ExecuteMultipleWriteOpsInTransaction conn (pre @ Some op # post) w =
              (Return (Some e), Rollback tx w3) \<and>
            calls (Rollback tx w3) = calls w3 @ [CallRollback (txId tx)])"
proof (intro conjI impI)
  show nil: "opsLoop (pre @ None # post) tx None w1 =
           opsLoop post tx None (logWarn ''Tx Op is nil! Ignoring it'' w2)" for post
    using assms(2) by (simp add: opsLoop_append)
  have "opsLoop (pre @ [None]) tx None w1 = (Return None, logWarn ''Tx Op is nil! Ignoring it'' w2)"
    using nil [of "[]"] by simp
  then show "fst (ExecuteMultipleWriteOpsInTransaction conn (pre @ [None]) w) =
           Return (commitResult tx (logWarn ''Tx Op is nil! Ignoring it'' w2))"
    unfolding ExecuteMultipleWriteOpsInTransaction_def
    using assms(1)
      ExecuteOps_ops_ok [where conn = conn and w = w and tx = tx and ?w1.0 = w1
        and ?w2.0 = "logWarn ''Tx Op is nil! Ignoring it'' w2"
        and txOps = "\<lambda>tx. opsLoop (pre @ [None]) tx None"]
    by (simp split: option.splits)
next
  assume f: "op tx w2 = (Return (Some e), w3)"
  have "opsLoop (pre @ Some op # post) tx None w1 = (Return (Some e), w3)"
    using assms(2) f by (simp add: opsLoop_append)
  then show "ExecuteMultipleWriteOpsInTransaction conn (pre @ Some op # post) w =
              (Return (Some e), Rollback tx w3)"
    unfolding ExecuteMultipleWriteOpsInTransaction_def
    using assms(1)
      ExecuteOps_ops_error [where conn = conn and w = w and tx = tx and ?w1.0 = w1
        and e = e and ?w2.0 = w3 and txOps = "\<lambda>tx. opsLoop (pre @ Some op # post) tx None"]
    by simp
next
  show "calls (Rollback tx w3) = calls w3 @ [CallRollback (txId tx)]"
    by (rule Rollback_calls)
qed

theorem multiple_writes_all_or_nothing_witness:
  "dbBegin exampleDB world0 = (Inr exampleTx, \<lparr>calls = [CallBegin], logs = [], app = 0\<rparr>) \<and>
   opsLoop [Some (insertOp ''a''), None, Some (insertOp ''b'')] exampleTx None
       \<lparr>calls = [CallBegin], logs = [], app = 0\<rparr> =
     (Return None,
      \<lparr>calls = [CallBegin, CallExec 7 ''INSERT'' [''a''], CallExec 7 ''INSERT'' [''b'']],
       logs = [LogLine WarnLevel None ''Tx Op is nil! Ignoring it''], app = 0\<rparr>) \<and>
   updateNothingOp exampleTx
       \<lparr>calls = [CallBegin, CallExec 7 ''INSERT'' [''a''], CallExec 7 ''INSERT'' [''b'']],
        logs = [LogLine WarnLevel None ''Tx Op is nil! Ignoring it''], app = 0\<rparr> =
     (Return (Some ErrNoRowsUpdated),
      \<lparr>calls = [CallBegin, CallExec 7 ''INSERT'' [''a''], CallExec 7 ''INSERT'' [''b''],
                CallExec 7 ''UPDATE nothing'' []],
       logs = [LogLine WarnLevel None ''Tx Op is nil! Ignoring it''], app = 0\<rparr>) \<and>
   ExecuteMultipleWriteOpsInTransaction exampleDB
       [Some (insertOp ''a''), None, Some (insertOp ''b''), Some updateNothingOp,
        Some (insertOp ''d''), Some (insertOp ''e'')] world0 =
     (Return (Some ErrNoRowsUpdated),
      \<lparr>calls = [CallBegin, CallExec 7 ''INSERT'' [''a''], CallExec 7 ''INSERT'' [''b''],
                CallExec 7 ''UPDATE nothing'' [], CallRollback 7],
       logs = [LogLine WarnLevel None ''Tx Op is nil! Ignoring it''], app = 0\<rparr>)"
  using multiple_writes_all_or_nothing
    [where conn = exampleDB and w = world0 and tx = exampleTx
      and pre = "[Some (insertOp ''a''), None, Some (insertOp ''b'')]"
      and op = updateNothingOp and e = ErrNoRowsUpdated
      and post = "[Some (insertOp ''d''), Some (insertOp ''e'')]"
      and ?w1.0 = "\<lparr>calls = [CallBegin], logs = [], app = 0\<rparr>"
      and ?w2.0 = "\<lparr>calls = [CallBegin, CallExec 7 ''INSERT'' [''a''],
                            CallExec 7 ''INSERT'' [''b'']],
                   logs = [LogLine WarnLevel None ''Tx Op is nil! Ignoring it''], app = 0\<rparr>"
      and ?w3.0 = "\<lparr>calls = [CallBegin, CallExec 7 ''INSERT'' [''a''],
                            CallExec 7 ''INSERT'' [''b''], CallExec 7 ''UPDATE nothing'' []],
                   logs = [LogLine WarnLevel None ''Tx Op is nil! Ignoring it''], app = 0\<rparr>"]
  by (simp add: example_defs executor_defs write_defs)

section \<open>Properties of the connection pool initializer\<close>

lemmas pool_defs =
  GetConfiguredConnectionPool_def initBody_def CreateDBConnectionPool_def getDB_def
  runMigration_def getMigrationDriver_def getMigration_def called_def initialVars_def
  MySQLDialect_def exampleConfig_def exampleMigrationConf_def workingEnv_def unreachableEnv_def

lemma GetPool_done:
  "dataAccessorInitializer s \<Longrightarrow>
   GetConfiguredConnectionPool env dbConfig migrationConf s =
     (Return (db s, if db s = None then Some errDBConnectionNeverInitialized else None), s)"
  by (simp add: GetConfiguredConnectionPool_def)

lemma GetPool_sets_flag:
  "dataAccessorInitializer (snd (GetConfiguredConnectionPool env dbConfig migrationConf s))"
  by (simp add: GetConfiguredConnectionPool_def Let_def split: prod.splits outcome.splits)

lemma callSequence_Cons_snd:
  "snd (callSequence ((env, dbConfig, migrationConf) # rest) s) =
     snd (callSequence rest (snd (GetConfiguredConnectionPool env dbConfig migrationConf s)))"
  by (simp split: prod.splits)

lemma callSequence_Cons_fst:
  "fst (callSequence ((env, dbConfig, migrationConf) # rest) s) =
     fst (GetConfiguredConnectionPool env dbConfig migrationConf s)
     # fst (callSequence rest (snd (GetConfiguredConnectionPool env dbConfig migrationConf s)))"
  by (simp split: prod.splits)

lemma callSequence_done:
  "dataAccessorInitializer s \<Longrightarrow>
   snd (callSequence reqs s) = s \<and>
   (\<forall>x \<in> set (fst (callSequence reqs s)).
      x = Return (db s, if db s = None then Some errDBConnectionNeverInitialized else None))"
proof (induction reqs)
  case Nil
  show ?case by simp
next
  case (Cons req reqs)
  obtain env dbConfig migrationConf where req: "req = (env, dbConfig, migrationConf)"
    by (cases req)
  have g: "GetConfiguredConnectionPool env dbConfig migrationConf s =
     (Return (db s, if db s = None then Some errDBConnectionNeverInitialized else None), s)"
    using Cons.prems by (rule GetPool_done)
  from Cons show ?case
    unfolding req callSequence_Cons_snd callSequence_Cons_fst g by simp
qed

lemma getDB_opens:
  "filter isSqlOpen (poolCalls (snd (getDB env dialect url s))) =
     filter isSqlOpen (poolCalls s) @ [SqlOpen dialect url]"
  by (simp add: getDB_def called_def isSqlOpen_def)

lemma CreateDBConnectionPool_opens:
  "filter isSqlOpen (poolCalls (snd (CreateDBConnectionPool env dbConfig s))) =
     filter isSqlOpen (poolCalls s) @ [SqlOpen (GetDBDialect dbConfig) (GetDBConnectionURL dbConfig)]"
  by (simp add: CreateDBConnectionPool_def getDB_def called_def isSqlOpen_def
      split: sum.splits)

lemma runMigration_opens:
  "filter isSqlOpen (poolCalls (snd (runMigration env dbConfig migrationConf s))) =
     filter isSqlOpen (poolCalls s)"
  by (simp add: runMigration_def getMigrationDriver_def getMigration_def called_def
      isSqlOpen_def Let_def split: option.splits)

lemma initBody_opens:
  "filter isSqlOpen (poolCalls (snd (initBody env dbConfig migrationConf s))) =
     filter isSqlOpen (poolCalls s) @ [SqlOpen (GetDBDialect dbConfig) (GetDBConnectionURL dbConfig)]"
proof -
  obtain pool err s1 where c: "CreateDBConnectionPool env dbConfig s = ((pool, err), s1)"
    by (metis surj_pair)
  have o: "filter isSqlOpen (poolCalls s1) =
     filter isSqlOpen (poolCalls s) @ [SqlOpen (GetDBDialect dbConfig) (GetDBConnectionURL dbConfig)]"
    using CreateDBConnectionPool_opens [of env dbConfig s] c by simp
  show ?thesis
    using o runMigration_opens [of env dbConfig migrationConf "s1\<lparr>db := pool\<rparr>"]
    by (simp add: initBody_def c Let_def)
qed

lemma GetPool_first_state:
  assumes "\<not> dataAccessorInitializer s"
  shows "snd (GetConfiguredConnectionPool env dbConfig migrationConf s) =
           (snd (initBody env dbConfig migrationConf s))\<lparr>dataAccessorInitializer := True\<rparr>"
proof -
  obtain r s1 where b: "initBody env dbConfig migrationConf s = (r, s1)"
    by (cases "initBody env dbConfig migrationConf s")
  show ?thesis
    using assms by (cases r) (simp_all add: GetConfiguredConnectionPool_def b)
qed

lemma GetPool_first_opens:
  "\<not> dataAccessorInitializer s \<Longrightarrow>
   filter isSqlOpen (poolCalls (snd (GetConfiguredConnectionPool env dbConfig migrationConf s))) =
     filter isSqlOpen (poolCalls s) @ [SqlOpen (GetDBDialect dbConfig) (GetDBConnectionURL dbConfig)]"
  using initBody_opens [of env dbConfig migrationConf s]
  by (simp add: GetPool_first_state)

lemma callSequence_after_first:
  "snd (callSequence ((env, dbConfig, migrationConf) # reqs) s) =
     snd (GetConfiguredConnectionPool env dbConfig migrationConf s)"
  using callSequence_done [OF GetPool_sets_flag [of env dbConfig migrationConf s], of reqs]
  unfolding callSequence_Cons_snd by simp

text \<open>
  C8. In every sequence of calls that starts with the package variables unset, the
  pool is opened at most once; after the first call of a sequence the package
  variables and the record of library calls never change again, so the
  initialization body is not run a second time. If the first call leaves \<open>db\<close> nil,
  every later call returns nil with \<open>errDBConnectionNeverInitialized\<close>.
\<close>

theorem pool_initialised_once:
  "length (filter isSqlOpen (poolCalls (snd (callSequence reqs initialVars)))) \<le> 1 \<and>
   snd (callSequence ((env, dbConfig, migrationConf) # reqs) s) =
     snd (GetConfiguredConnectionPool env dbConfig migrationConf s) \<and>
   (db (snd (GetConfiguredConnectionPool env dbConfig migrationConf initialVars)) = None \<longrightarrow>
      (\<forall>x \<in> set (fst (callSequence reqs
                          (snd (GetConfiguredConnectionPool env dbConfig migrationConf initialVars)))).
         x = Return (None, Some errDBConnectionNeverInitialized)))"
proof (intro conjI impI)
  show "length (filter isSqlOpen (poolCalls (snd (callSequence reqs initialVars)))) \<le> 1"
  proof (cases reqs)
    case Nil
    then show ?thesis by (simp add: initialVars_def)
  next
    case (Cons req rest)
    obtain env' dbConfig' migrationConf' where req: "req = (env', dbConfig', migrationConf')"
      by (cases req)
    have "\<not> dataAccessorInitializer (initialVars :: 'a poolVars)"
      by (simp add: initialVars_def)
    from GetPool_first_opens [OF this, of env' dbConfig' migrationConf']
    show ?thesis
      unfolding Cons req callSequence_after_first by (simp add: initialVars_def)
  qed
next
  show "snd (callSequence ((env, dbConfig, migrationConf) # reqs) s) =
     snd (GetConfiguredConnectionPool env dbConfig migrationConf s)"
    by (rule callSequence_after_first)
next
  let ?s1 = "snd (GetConfiguredConnectionPool env dbConfig migrationConf initialVars)"
  assume n: "db ?s1 = None"
  have "dataAccessorInitializer ?s1" by (rule GetPool_sets_flag)
  from callSequence_done [OF this, of reqs] n
  show "\<forall>x \<in> set (fst (callSequence reqs ?s1)).
         x = Return (None, Some errDBConnectionNeverInitialized)"
    by simp
qed

theorem pool_initialised_once_witness:
  "db (snd (GetConfiguredConnectionPool unreachableEnv exampleConfig (Some exampleMigrationConf)
             initialVars)) = None \<and>
   callSequence
     [(unreachableEnv, exampleConfig, Some exampleMigrationConf),
      (workingEnv, exampleConfig, Some exampleMigrationConf),
      (workingEnv, exampleConfig, None)] initialVars =
     ([Return (None, Some (OtherError ''unknown driver'')),
       Return (None, Some errDBConnectionNeverInitialized),
       Return (None, Some errDBConnectionNeverInitialized)],
      \<lparr>db = None, dataAccessorInitializer = True,
       poolCalls = [SqlOpen ''sqlite3'' ''database.sqlite3'']\<rparr>) \<and>
   length (filter isSqlOpen (poolCalls (snd (callSequence
     [(workingEnv, exampleConfig, Some exampleMigrationConf),
      (workingEnv, exampleConfig, Some exampleMigrationConf)] initialVars)))) = 1"
  using pool_initialised_once
    [where env = unreachableEnv and dbConfig = exampleConfig
      and migrationConf = "Some exampleMigrationConf"
      and reqs = "[(workingEnv, exampleConfig, Some exampleMigrationConf),
                   (workingEnv, exampleConfig, None)]"]
  by (simp add: pool_defs isSqlOpen_def)

end
